theory Spec2Isabelle
  imports Main "HOL-Library.Word"
begin

section \<open>Gnosis Safe deployment helpers\<close>

text \<open>
  A shallow embedding of
  \<^verbatim>\<open>packages/valory/skills/price_estimation_abci/helpers/gnosis_safe.py\<close>:
  the planner \<^verbatim>\<open>get_deploy_safe_tx\<close> and the builder
  \<^verbatim>\<open>_build_tx_deploy_proxy_contract_with_nonce\<close> (a name cannot start with an
  underscore here, so the builder and \<^verbatim>\<open>_get_nonce\<close> lose theirs).

  Python integers are \<open>int\<close>. An exception is a value of \<open>exn\<close> on the left of a sum.
  Every query sent to a node is appended to a trace, so that "no chain I/O" and "which
  client was asked" are statements about the trace a run returns.
\<close>

subsection \<open>Values\<close>

type_synonym address = string
type_synonym bytes = "8 word list"

text \<open>
  The exceptions of the module are all \<^verbatim>\<open>ValueError\<close>, told apart by their message.
  \<open>KeyError\<close> is a missing dictionary key and \<open>InvalidOperation\<close> is
  \<^verbatim>\<open>decimal.InvalidOperation\<close>. A remote call that fails raises what the node or the
  transport gave: \<open>ConnectionError\<close> is the built-in exception of that name, and
  \<open>ChainQueryFailed\<close> stands for every other failure, a JSON-RPC error among them.
\<close>

datatype exn =
    ValueError string
  | KeyError string
  | InvalidOperation
  | ConnectionError string
  | ChainQueryFailed string

definition InvalidThreshold :: exn where
  "InvalidThreshold = ValueError ''Threshold cannot be bigger than the number of unique owners''"

definition InsufficientFunds :: exn where
  "InsufficientFunds = ValueError ''Client does not have any funds''"

definition UnsupportedNetwork :: exn where
  "UnsupportedNetwork = ValueError ''Network not supported''"

text \<open>The module's constants.\<close>

definition SAFE_CONTRACT :: address where
  "SAFE_CONTRACT = ''0xd9Db270c1B5E3Bd161E8c8503c55cEABeE709552''"

definition DEFAULT_CALLBACK_HANDLER :: address where
  "DEFAULT_CALLBACK_HANDLER = ''0xf48f2B2d2a534e402487b3ee7C18c33Aec0Fe5e4''"

definition PROXY_FACTORY_CONTRACT :: address where
  "PROXY_FACTORY_CONTRACT = ''0xa6B71E26C5e0845f74c812102Ca7114b6a896AB2''"

text \<open>\<^verbatim>\<open>gnosis.eth.constants.NULL_ADDRESS\<close>.\<close>

definition NULL_ADDRESS :: address where
  "NULL_ADDRESS = ''0x0000000000000000000000000000000000000000''"

text \<open>
  \<^verbatim>\<open>TxParams\<close> is a dictionary; each key the module reads or writes is a field that
  may be absent.
\<close>

record TxParams =
  tx_from :: "address option"
  tx_to :: "address option"
  tx_data :: "bytes option"
  tx_gas :: "int option"
  tx_gasPrice :: "int option"
  tx_nonce :: "int option"

definition no_params :: TxParams where
  "no_params = \<lparr>tx_from = None, tx_to = None, tx_data = None, tx_gas = None,
     tx_gasPrice = None, tx_nonce = None\<rparr>"

text \<open>
  The two contract functions the module calls, with their arguments in the order of the
  source: \<open>setup_call\<close> is \<^verbatim>\<open>setup(owners, threshold, to, data, fallback_handler,
  payment_token, payment, payment_receiver)\<close> of the Safe, next to
  \<^verbatim>\<open>createProxyWithNonce(master_copy, initializer, salt_nonce)\<close> of the proxy factory.
\<close>

datatype contract_fn =
    setup_call "address list" int address bytes address address int address
  | createProxyWithNonce address bytes int

subsection \<open>The collaborators\<close>

text \<open>
  What a node answers to each query. A balance is a \<^verbatim>\<open>uint256\<close> of the chain, so
  \<^verbatim>\<open>fromWei\<close> finds it in its range.
\<close>

record rpc_node =
  balance_of :: "address \<Rightarrow> exn + 256 word"
  network_name :: "exn + string"
  code_at :: "address \<Rightarrow> exn + bytes"
  call_result :: "TxParams \<Rightarrow> exn + address"
  gas_estimate :: "TxParams \<Rightarrow> exn + int"
  transaction_count :: "address \<Rightarrow> exn + int"

text \<open>
  A client is a node together with the way it was reached: \<open>Node url\<close> for
  \<^verbatim>\<open>EthereumClient(node_url)\<close>, \<open>Auto\<close> for the module-level \<^verbatim>\<open>web3.auto.w3\<close>.
\<close>

datatype endpoint = Node string | Auto

type_synonym client = "endpoint \<times> rpc_node"

datatype rpc =
    eth_getBalance address
  | net_version
  | eth_getCode address
  | eth_call TxParams
  | eth_estimateGas TxParams
  | eth_getTransactionCount address

text \<open>
  Everything outside the module that a run depends on: the node behind each URL, the node
  the auto-configured provider reaches, \<^verbatim>\<open>helpers.base.checksum_address\<close> (not among the
  sources, so a parameter), the ABI encoder of the contract functions, and the value
  \<^verbatim>\<open>secrets.SystemRandom().randint(lo, hi)\<close> yields on this run.
\<close>

record env =
  node_at :: "string \<Rightarrow> rpc_node"
  auto_node :: rpc_node
  checksum_address :: "string \<Rightarrow> exn + address"
  encodeABI :: "contract_fn \<Rightarrow> exn + bytes"
  SystemRandom_randint :: "int \<Rightarrow> int \<Rightarrow> int"

subsection \<open>Effects: exceptions and the trace of queries\<close>

type_synonym trace = "(endpoint \<times> rpc) list"
type_synonym 'a io = "trace \<Rightarrow> (exn + 'a) \<times> trace"

definition io_return :: "'a \<Rightarrow> 'a io" where
  "io_return x = (\<lambda>t. (Inr x, t))"

definition io_raise :: "exn \<Rightarrow> 'a io" where
  "io_raise e = (\<lambda>t. (Inl e, t))"

definition io_lift :: "exn + 'a \<Rightarrow> 'a io" where
  "io_lift r = (\<lambda>t. (r, t))"

definition io_bind :: "'a io \<Rightarrow> ('a \<Rightarrow> 'b io) \<Rightarrow> 'b io" where
  "io_bind m f = (\<lambda>t. case m t of (Inl e, t') \<Rightarrow> (Inl e, t') | (Inr x, t') \<Rightarrow> f x t')"

definition query :: "endpoint \<Rightarrow> rpc \<Rightarrow> exn + 'a \<Rightarrow> 'a io" where
  "query ep q r = (\<lambda>t. (r, t @ [(ep, q)]))"

subsection \<open>The client library, as far as the module uses it\<close>

definition w3 :: "env \<Rightarrow> client" where
  "w3 E = (Auto, auto_node E)"

definition get_network :: "client \<Rightarrow> string io" where
  "get_network c = query (fst c) net_version (network_name (snd c))"

text \<open>
  \<^verbatim>\<open>EthereumClient(node_url)\<close>. The constructor asks the node for its network, to
  choose a middleware for networks other than the main one. A \<open>ConnectionError\<close> of that
  query is caught and the client is returned all the same; any other exception of the
  query, a JSON-RPC error among them, leaves the constructor.
\<close>

definition EthereumClient :: "env \<Rightarrow> string \<Rightarrow> client io" where
  "EthereumClient E node_url =
     (let c = (Node node_url, node_at E node_url)
      in (\<lambda>t. case get_network c t of
                (Inr network, t') \<Rightarrow> (Inr c, t')
              | (Inl (ConnectionError m), t') \<Rightarrow> (Inr c, t')
              | (Inl e, t') \<Rightarrow> (Inl e, t')))"

definition get_balance :: "client \<Rightarrow> address \<Rightarrow> (256 word) io" where
  "get_balance c a = query (fst c) (eth_getBalance a) (balance_of (snd c) a)"

definition getCode :: "client \<Rightarrow> address \<Rightarrow> bytes io" where
  "getCode c a = query (fst c) (eth_getCode a) (code_at (snd c) a)"

definition get_transaction_count :: "client \<Rightarrow> address \<Rightarrow> int io" where
  "get_transaction_count c a =
     query (fst c) (eth_getTransactionCount a) (transaction_count (snd c) a)"

text \<open>
  \<^verbatim>\<open>fn.call(tx_parameters)\<close> of a contract function bound to a client and an address:
  the read-only simulation of the encoded call, sent to that address.
\<close>

definition contract_call :: "env \<Rightarrow> client \<Rightarrow> address \<Rightarrow> contract_fn \<Rightarrow> TxParams \<Rightarrow> address io" where
  "contract_call E c addr fn tx_parameters =
     io_bind (io_lift (encodeABI E fn)) (\<lambda>d.
       let tx = tx_parameters\<lparr>tx_to := Some addr, tx_data := Some d\<rparr>
       in query (fst c) (eth_call tx) (call_result (snd c) tx))"

text \<open>
  \<^verbatim>\<open>fn.buildTransaction(tx_parameters)\<close>: the parameters given are kept, the contract's
  address and the encoded call are filled in, and a gas limit that was not given is the
  node's estimate for the transaction. The other defaults of the library (value, chain
  id, gas price) are fields no part of the module reads; they are left out.
\<close>

definition buildTransaction :: "env \<Rightarrow> client \<Rightarrow> address \<Rightarrow> contract_fn \<Rightarrow> TxParams \<Rightarrow> TxParams io" where
  "buildTransaction E c addr fn tx_parameters =
     io_bind (io_lift (encodeABI E fn)) (\<lambda>d.
       let tx = tx_parameters\<lparr>tx_to := Some addr, tx_data := Some d\<rparr>
       in case tx_gas tx of
            Some g \<Rightarrow> io_return tx
          | None \<Rightarrow>
              io_bind (query (fst c) (eth_estimateGas tx) (gas_estimate (snd c) tx)) (\<lambda>g.
                io_return (tx\<lparr>tx_gas := Some g\<rparr>)))"

text \<open>\<^verbatim>\<open>d[key]\<close> on a dictionary: a missing key raises \<^verbatim>\<open>KeyError\<close>.\<close>

definition getitem :: "string \<Rightarrow> 'a option \<Rightarrow> 'a io" where
  "getitem key v = (case v of None \<Rightarrow> io_raise (KeyError key) | Some x \<Rightarrow> io_return x)"

text \<open>\<^verbatim>\<open>gnosis.safe.ProxyFactory(address, ethereum_client)\<close>.\<close>

record ProxyFactory =
  pf_address :: address
  pf_ethereum_client :: client

text \<open>
  \<^verbatim>\<open>round(w3.fromWei(account_balance, "ether"), 6)\<close> for a balance other than zero.
  \<^verbatim>\<open>fromWei\<close> divides exactly by \<open>10 ^ 18\<close>; \<^verbatim>\<open>round\<close> of a \<^verbatim>\<open>Decimal\<close> to six places
  quantizes half-even in the default context of 28 digits and raises
  \<^verbatim>\<open>decimal.InvalidOperation\<close> when the result needs more. The value is the rounded
  balance in millionths of an ether; the module only writes it to the log.
\<close>

definition round_fromWei_ether :: "256 word \<Rightarrow> exn + int" where
  "round_fromWei_ether account_balance =
     (let q = uint account_balance div 10 ^ 12;
          r = uint account_balance mod 10 ^ 12;
          m = (if 10 ^ 12 < 2 * r \<or> 2 * r = 10 ^ 12 \<and> odd q then q + 1 else q)
      in if 10 ^ 28 \<le> m then Inl InvalidOperation else Inr m)"

subsection \<open>The module\<close>

text \<open>
  The text of the two log lines is not modelled, what their arguments do is: the rounding
  of the balance, and the network query \<^verbatim>\<open>ethereum_client.get_network()\<close> of the first.
\<close>

definition get_nonce :: "env \<Rightarrow> int" where
  "get_nonce E = SystemRandom_randint E 0 (2 ^ 256 - 1)"

definition build_tx_deploy_proxy_contract_with_nonce ::
  "env \<Rightarrow> ProxyFactory \<Rightarrow> address \<Rightarrow> address \<Rightarrow> bytes \<Rightarrow> int \<Rightarrow>
   int option \<Rightarrow> int option \<Rightarrow> int option \<Rightarrow> (TxParams \<times> address) io" where
  "build_tx_deploy_proxy_contract_with_nonce E proxy_factory master_copy address initializer
       salt_nonce gas gas_price nonce =
     (let proxy_factory_contract = (pf_ethereum_client proxy_factory, pf_address proxy_factory);
          create_proxy_fn = createProxyWithNonce master_copy initializer salt_nonce;
          tx_parameters = no_params\<lparr>tx_from := Some address\<rparr>
      in io_bind (contract_call E (fst proxy_factory_contract) (snd proxy_factory_contract)
                    create_proxy_fn tx_parameters) (\<lambda>contract_address.
         let tx_parameters1 = (case gas_price of None \<Rightarrow> tx_parameters
                                | Some p \<Rightarrow> tx_parameters\<lparr>tx_gasPrice := Some p\<rparr>);
             tx_parameters2 = (case gas of None \<Rightarrow> tx_parameters1
                                | Some g \<Rightarrow> tx_parameters1\<lparr>tx_gas := Some g\<rparr>);
             tx_parameters3 = (case nonce of None \<Rightarrow> tx_parameters2
                                | Some n \<Rightarrow> tx_parameters2\<lparr>tx_nonce := Some n\<rparr>)
         in io_bind (buildTransaction E (fst proxy_factory_contract) (snd proxy_factory_contract)
                       create_proxy_fn tx_parameters3) (\<lambda>tx.
            io_bind (getitem ''gas'' (tx_gas tx)) (\<lambda>g.
            let tx1 = tx\<lparr>tx_gas := Some (g + 50000)\<rparr>
            in io_bind (get_transaction_count (w3 E) address) (\<lambda>n.
               io_return (tx1\<lparr>tx_nonce := Some n\<rparr>, contract_address))))))"

definition get_deploy_safe_tx ::
  "env \<Rightarrow> string \<Rightarrow> string \<Rightarrow> address list \<Rightarrow> int \<Rightarrow> int option \<Rightarrow> (TxParams \<times> address) io" where
  "get_deploy_safe_tx E ethereum_node_url sender owners threshold salt_nonce =
     (let node_url = ethereum_node_url;
          salt_nonce1 = (case salt_nonce of Some s \<Rightarrow> s | None \<Rightarrow> get_nonce E);
          to = NULL_ADDRESS;
          data = [];
          payment_token = NULL_ADDRESS;
          payment = 0;
          payment_receiver = NULL_ADDRESS
      in if int (length owners) < threshold then io_raise InvalidThreshold
         else
           let safe_contract_address = SAFE_CONTRACT;
               proxy_factory_address = PROXY_FACTORY_CONTRACT;
               fallback_handler = DEFAULT_CALLBACK_HANDLER
           in io_bind (EthereumClient E node_url) (\<lambda>ethereum_client.
              io_bind (io_lift (checksum_address E sender)) (\<lambda>account_address.
              io_bind (get_balance ethereum_client account_address) (\<lambda>account_balance.
              if account_balance = 0 then io_raise InsufficientFunds
              else
                io_bind (io_lift (round_fromWei_ether account_balance))
                  (\<lambda>ether_account_balance.
                io_bind (get_network ethereum_client) (\<lambda>network.
                io_bind (getCode ethereum_client safe_contract_address) (\<lambda>safe_code.
                if safe_code = [] then io_raise UnsupportedNetwork
                else
                  io_bind (getCode ethereum_client proxy_factory_address) (\<lambda>factory_code.
                  if factory_code = [] then io_raise UnsupportedNetwork
                  else
                    io_bind (buildTransaction E ethereum_client safe_contract_address
                               (setup_call owners threshold to data fallback_handler payment_token
                                  payment payment_receiver)
                               (no_params\<lparr>tx_gas := Some 1, tx_gasPrice := Some 1\<rparr>))
                      (\<lambda>setup_tx.
                    io_bind (getitem ''data'' (tx_data setup_tx)) (\<lambda>safe_creation_tx_data.
                    let proxy_factory = \<lparr>pf_address = proxy_factory_address,
                                           pf_ethereum_client = ethereum_client\<rparr>
                    in build_tx_deploy_proxy_contract_with_nonce E proxy_factory
                         safe_contract_address account_address safe_creation_tx_data
                         salt_nonce1 None None None))))))))))"

subsection \<open>A test double\<close>

text \<open>
  A funded sender on a network that has both contracts: the node behind every URL reports
  1 ETH, non-empty code, a fixed simulated address, a gas estimate of 250000 and a
  transaction count of 11; the auto-configured node reports a count of 3. The encoder is
  a toy one that keeps the arguments apart.
\<close>

definition abi0 :: "contract_fn \<Rightarrow> exn + bytes" where
  "abi0 fn = (case fn of
       setup_call owners threshold to data handler token payment receiver \<Rightarrow>
         Inr ([1, of_nat (length owners), of_int threshold] @ data)
     | createProxyWithNonce master_copy initializer salt_nonce \<Rightarrow>
         Inr (2 # of_int salt_nonce # initializer))"

definition node0 :: rpc_node where
  "node0 = \<lparr>balance_of = (\<lambda>a. Inr 1000000000000000000),
            network_name = Inr ''MAINNET'',
            code_at = (\<lambda>a. Inr [96, 128]),
            call_result = (\<lambda>tx. Inr ''0xPredicted''),
            gas_estimate = (\<lambda>tx. Inr 250000),
            transaction_count = (\<lambda>a. Inr 11)\<rparr>"

definition auto0 :: rpc_node where
  "auto0 = node0\<lparr>transaction_count := (\<lambda>a. Inr 3)\<rparr>"

definition env0 :: env where
  "env0 = \<lparr>node_at = (\<lambda>url. node0), auto_node = auto0, checksum_address = Inr,
           encodeABI = abi0, SystemRandom_randint = (\<lambda>lo hi. hi)\<rparr>"

text \<open>The same network with an unfunded sender, and with the contracts missing too.\<close>

definition env_broke :: env where
  "env_broke = env0\<lparr>node_at := (\<lambda>url. node0\<lparr>balance_of := (\<lambda>a. Inr 0)\<rparr>)\<rparr>"

definition env_bare :: env where
  "env_bare = env0\<lparr>node_at := (\<lambda>url. node0\<lparr>balance_of := (\<lambda>a. Inr 0),
                                                 code_at := (\<lambda>a. Inr [])\<rparr>)\<rparr>"

definition env_nocode :: env where
  "env_nocode = env0\<lparr>node_at := (\<lambda>url. node0\<lparr>code_at := (\<lambda>a. Inr [])\<rparr>)\<rparr>"

text \<open>The factory alone is missing.\<close>

definition env_nofactory :: env where
  "env_nofactory = env0\<lparr>node_at := (\<lambda>url. node0\<lparr>code_at :=
      (\<lambda>a. if a = PROXY_FACTORY_CONTRACT then Inr [] else Inr [96, 128])\<rparr>)\<rparr>"

text \<open>Two URLs that reach nodes with different transaction counts.\<close>

definition env_two :: env where
  "env_two = env0\<lparr>node_at := (\<lambda>url. if url = ''http://a'' then node0
                                   else node0\<lparr>transaction_count := (\<lambda>a. Inr 99)\<rparr>)\<rparr>"

text \<open>
  A node that cannot tell its network, with an unfunded sender, and a node that reports
  the largest balance there is on a network without the contracts.
\<close>

definition env_nonet :: env where
  "env_nonet = env0\<lparr>node_at := (\<lambda>url. node0\<lparr>balance_of := (\<lambda>a. Inr 0),
      network_name := Inl (ChainQueryFailed ''the method net_version does not exist'')\<rparr>)\<rparr>"

definition env_rich :: env where
  "env_rich = env0\<lparr>node_at := (\<lambda>url. node0\<lparr>code_at := (\<lambda>a. Inr []), balance_of := (\<lambda>a.
      Inr 115792089237316195423570985008687907853269984665640564039457584007913129639935)\<rparr>)\<rparr>"

definition pf0 :: ProxyFactory where
  "pf0 = \<lparr>pf_address = PROXY_FACTORY_CONTRACT,
          pf_ethereum_client = (Node ''http://node'', node_at env0 ''http://node'')\<rparr>"

section \<open>Properties\<close>

lemmas io_defs = io_return_def io_raise_def io_lift_def io_bind_def query_def getitem_def

lemmas client_defs = EthereumClient_def w3_def get_balance_def get_network_def getCode_def
  get_transaction_count_def contract_call_def buildTransaction_def

lemmas run_defs = get_deploy_safe_tx_def build_tx_deploy_proxy_contract_with_nonce_def
  get_nonce_def round_fromWei_ether_def io_defs client_defs no_params_def Let_def

lemmas const_defs = SAFE_CONTRACT_def PROXY_FACTORY_CONTRACT_def DEFAULT_CALLBACK_HANDLER_def
  NULL_ADDRESS_def

lemmas double_defs = env0_def env_broke_def env_bare_def env_nocode_def env_two_def
  env_nofactory_def env_nonet_def env_rich_def node0_def auto0_def abi0_def pf0_def

subsection \<open>What each run does\<close>

text \<open>The threshold test comes first and touches no client.\<close>

lemma planner_threshold:
  "int (length owners) < threshold \<Longrightarrow>
   get_deploy_safe_tx E url sender owners threshold salt t = (Inl InvalidThreshold, t)"
  by (simp add: get_deploy_safe_tx_def io_defs)

text \<open>
  The constructor of the client comes next, with its network query. An exception of that
  query other than a \<open>ConnectionError\<close> ends the run before the balance is asked for.
\<close>

lemma planner_network_refused:
  assumes "\<not> int (length owners) < threshold"
    and "network_name (node_at E url) = Inl e"
    and "\<forall>m. e \<noteq> ConnectionError m"
  shows "get_deploy_safe_tx E url sender owners threshold salt t =
           (Inl e, t @ [(Node url, net_version)])"
  using assms
  by (cases e) (simp_all add: get_deploy_safe_tx_def io_defs client_defs)

text \<open>
  A node that answers the network query with a JSON-RPC error, and would report a balance
  of zero: the run ends with the node's error.
\<close>

lemma planner_network_refused_example:
  "get_deploy_safe_tx env_nonet ''http://node'' ''0xSender'' [''0xA'', ''0xB'', ''0xC''] 2 (Some 42) []
     = (Inl (ChainQueryFailed ''the method net_version does not exist''),
        [(Node ''http://node'', net_version)])"
  using planner_network_refused
    [of "[''0xA'', ''0xB'', ''0xC'']" 2 env_nonet "''http://node''"
        "ChainQueryFailed ''the method net_version does not exist''" "''0xSender''" "Some 42" "[]"]
  by (simp add: double_defs)

text \<open>
  With the network query answered, a balance of zero stops the run right after the
  balance query.
\<close>

lemma planner_no_funds:
  assumes "\<not> int (length owners) < threshold"
    and "network_name (node_at E url) = Inr n"
    and "checksum_address E sender = Inr a"
    and "balance_of (node_at E url) a = Inr 0"
  shows "get_deploy_safe_tx E url sender owners threshold salt t =
           (Inl InsufficientFunds, t @ [(Node url, net_version), (Node url, eth_getBalance a)])"
  using assms by (simp add: get_deploy_safe_tx_def io_defs client_defs)

text \<open>
  The rounding for the log line fails from 9999999999999999999999999999500000000000 wei
  up, and only there.
\<close>

lemma round_fromWei_ether_raises:
  "round_fromWei_ether b = Inl InvalidOperation \<longleftrightarrow>
     9999999999999999999999999999500000000000 \<le> uint b"
proof -
  define w where "w = uint b"
  define q where "q = w div 1000000000000"
  define r where "r = w mod 1000000000000"
  have w: "w = q * 1000000000000 + r" and r: "0 \<le> r" "r < 1000000000000"
    by (simp_all add: q_def r_def)
  have odd: "q = 9999999999999999999999999999 \<Longrightarrow> odd q"
    by simp
  have "round_fromWei_ether b =
      (if 10000000000000000000000000000 \<le>
            (if 1000000000000 < 2 * r \<or> 2 * r = 1000000000000 \<and> odd q then q + 1 else q)
       then Inl InvalidOperation
       else Inr (if 1000000000000 < 2 * r \<or> 2 * r = 1000000000000 \<and> odd q then q + 1 else q))"
    by (simp add: round_fromWei_ether_def Let_def q_def r_def w_def)
  then show ?thesis
    unfolding w_def [symmetric] using w r odd
    by (auto split: if_splits)
qed

text \<open>A balance that makes the rounding fail stops a funded run before the code checks.\<close>

lemma planner_rounding_raises:
  assumes "\<not> int (length owners) < threshold"
    and "network_name (node_at E url) = Inr n"
    and "checksum_address E sender = Inr a"
    and "balance_of (node_at E url) a = Inr b"
    and "9999999999999999999999999999500000000000 \<le> uint b"
  shows "get_deploy_safe_tx E url sender owners threshold salt t =
           (Inl InvalidOperation, t @ [(Node url, net_version), (Node url, eth_getBalance a)])"
proof -
  from assms(5) have "round_fromWei_ether b = Inl InvalidOperation"
    by (simp add: round_fromWei_ether_raises)
  moreover from assms(5) have "b \<noteq> 0"
    by auto
  ultimately show ?thesis
    using assms(1-4) by (simp add: get_deploy_safe_tx_def io_defs client_defs)
qed

text \<open>
  Empty code at the Safe, or code at the Safe and empty code at the factory, stops a
  funded run whose balance is below the bound of the rounding. The constructor and the
  log line between the two checks ask the node for its network, so that query has to
  succeed for the code checks to be reached.
\<close>

lemma planner_no_code:
  assumes "\<not> int (length owners) < threshold"
    and "checksum_address E sender = Inr a"
    and "balance_of (node_at E url) a = Inr b" and "b \<noteq> 0"
    and "uint b < 9999999999999999999999999999500000000000"
    and "network_name (node_at E url) = Inr n"
    and "code_at (node_at E url) SAFE_CONTRACT = Inr safe_code"
    and "safe_code = [] \<or> code_at (node_at E url) PROXY_FACTORY_CONTRACT = Inr []"
  shows "fst (get_deploy_safe_tx E url sender owners threshold salt t) = Inl UnsupportedNetwork"
proof -
  from assms(5) obtain v where "round_fromWei_ether b = Inr v"
    using round_fromWei_ether_raises [of b]
    by (cases "round_fromWei_ether b")
       (auto simp: round_fromWei_ether_def Let_def split: if_splits)
  with assms show ?thesis
    by (auto simp add: get_deploy_safe_tx_def io_defs client_defs Let_def)
qed

text \<open>
  A builder run that returns: the address is the node's answer to the simulated call, the
  gas limit is the override or the estimate plus 50000, the nonce is the count the
  auto-configured node reports, and the queries are the simulation, the estimate when no
  gas limit was given, and the count.
\<close>

lemma builder_Inr:
  assumes "build_tx_deploy_proxy_contract_with_nonce E pf m a init s gas gp nonce t =
             (Inr (tx, c), t')"
  shows "\<exists>d g n. encodeABI E (createProxyWithNonce m init s) = Inr d
    \<and> call_result (snd (pf_ethereum_client pf))
         (no_params\<lparr>tx_from := Some a, tx_to := Some (pf_address pf), tx_data := Some d\<rparr>) = Inr c
    \<and> (case gas of Some g' \<Rightarrow> g = g'
        | None \<Rightarrow> gas_estimate (snd (pf_ethereum_client pf))
            \<lparr>tx_from = Some a, tx_to = Some (pf_address pf), tx_data = Some d, tx_gas = None,
             tx_gasPrice = gp, tx_nonce = nonce\<rparr> = Inr g)
    \<and> transaction_count (auto_node E) a = Inr n
    \<and> tx = \<lparr>tx_from = Some a, tx_to = Some (pf_address pf), tx_data = Some d,
            tx_gas = Some (g + 50000), tx_gasPrice = gp, tx_nonce = Some n\<rparr>
    \<and> t' = t @ [(fst (pf_ethereum_client pf), eth_call
              (no_params\<lparr>tx_from := Some a, tx_to := Some (pf_address pf), tx_data := Some d\<rparr>))]
            @ (case gas of Some g' \<Rightarrow> []
               | None \<Rightarrow> [(fst (pf_ethereum_client pf), eth_estimateGas
                   \<lparr>tx_from = Some a, tx_to = Some (pf_address pf), tx_data = Some d, tx_gas = None,
                    tx_gasPrice = gp, tx_nonce = nonce\<rparr>)])
            @ [(Auto, eth_getTransactionCount a)]"
  using assms
  by (auto simp: build_tx_deploy_proxy_contract_with_nonce_def io_defs client_defs no_params_def
        Let_def
      split: sum.splits option.splits prod.splits)

text \<open>
  A planner run that returns: the threshold test passed, five queries went to the node
  behind the URL (the constructor's, the balance, the log line's, the two code queries),
  and the result is the builder's, called with the factory, the Safe, the
  checksummed sender, the encoded \<open>setup_call\<close> and the salt (the caller's, or the draw).
\<close>

lemma planner_Inr:
  assumes "get_deploy_safe_tx E url sender owners threshold salt t = (Inr (tx, c), t')"
  shows "\<exists>a init. \<not> int (length owners) < threshold
    \<and> checksum_address E sender = Inr a
    \<and> encodeABI E (setup_call owners threshold NULL_ADDRESS [] DEFAULT_CALLBACK_HANDLER
         NULL_ADDRESS 0 NULL_ADDRESS) = Inr init
    \<and> build_tx_deploy_proxy_contract_with_nonce E
         \<lparr>pf_address = PROXY_FACTORY_CONTRACT, pf_ethereum_client = (Node url, node_at E url)\<rparr>
         SAFE_CONTRACT a init (case salt of Some s \<Rightarrow> s | None \<Rightarrow> get_nonce E) None None None
         (t @ [(Node url, net_version), (Node url, eth_getBalance a), (Node url, net_version),
               (Node url, eth_getCode SAFE_CONTRACT), (Node url, eth_getCode PROXY_FACTORY_CONTRACT)])
       = (Inr (tx, c), t')"
  using assms
  by (auto simp: get_deploy_safe_tx_def io_defs client_defs no_params_def Let_def
      split: sum.splits option.splits prod.splits if_splits exn.splits)

text \<open>
  The builder does return when the encoder and the three queries answer, and this is the
  transaction it returns.
\<close>

lemma builder_returns:
  assumes "encodeABI E (createProxyWithNonce m init s) = Inr d"
    and "call_result (snd (pf_ethereum_client pf))
           (no_params\<lparr>tx_from := Some a, tx_to := Some (pf_address pf), tx_data := Some d\<rparr>) = Inr c"
    and "gas = Some g \<or> gas = None \<and> gas_estimate (snd (pf_ethereum_client pf))
            \<lparr>tx_from = Some a, tx_to = Some (pf_address pf), tx_data = Some d, tx_gas = None,
             tx_gasPrice = gp, tx_nonce = nonce\<rparr> = Inr g"
    and "transaction_count (auto_node E) a = Inr n"
  shows "fst (build_tx_deploy_proxy_contract_with_nonce E pf m a init s gas gp nonce t) =
           Inr (\<lparr>tx_from = Some a, tx_to = Some (pf_address pf), tx_data = Some d,
                 tx_gas = Some (g + 50000), tx_gasPrice = gp, tx_nonce = Some n\<rparr>, c)"
  using assms
  by (auto simp: build_tx_deploy_proxy_contract_with_nonce_def io_defs client_defs no_params_def
        Let_def split: option.splits)

text \<open>The gas limit of a returned transaction, by whether a limit was given.\<close>

lemma builder_gas_limit:
  assumes "build_tx_deploy_proxy_contract_with_nonce E pf m a init s gas gp nonce t =
             (Inr (tx, c), t')"
  shows "case gas of
           Some g \<Rightarrow> tx_gas tx = Some (g + 50000)
         | None \<Rightarrow> \<exists>d g. gas_estimate (snd (pf_ethereum_client pf))
              \<lparr>tx_from = Some a, tx_to = Some (pf_address pf), tx_data = Some d, tx_gas = None,
               tx_gasPrice = gp, tx_nonce = nonce\<rparr> = Inr g \<and> tx_gas tx = Some (g + 50000)"
  using builder_Inr [OF assms] by (auto split: option.splits)

text \<open>The nonce of a returned transaction is the count the auto-configured node reports.\<close>

lemma builder_nonce_is_count:
  assumes "build_tx_deploy_proxy_contract_with_nonce E pf m a init s gas gp nonce t =
             (Inr (tx, c), t')"
  shows "\<exists>n. transaction_count (auto_node E) a = Inr n \<and> tx_nonce tx = Some n"
  using builder_Inr [OF assms] by auto

text \<open>
  The salt of a returned deployment is the caller's when one was given, and otherwise the
  value drawn by \<^verbatim>\<open>secrets.SystemRandom().randint(0, 2 ** 256 - 1)\<close>. How that draw is
  distributed is a property of the random source, which this model takes as given.
\<close>

lemma planner_salt_nonce:
  assumes "get_deploy_safe_tx E url sender owners threshold salt t = (Inr (tx, c), t')"
  shows "\<exists>init d. encodeABI E (createProxyWithNonce SAFE_CONTRACT init
             (case salt of Some s \<Rightarrow> s | None \<Rightarrow> SystemRandom_randint E 0 (2 ^ 256 - 1))) = Inr d
           \<and> tx_data tx = Some d"
proof -
  from planner_Inr [OF assms] obtain a init where
    "build_tx_deploy_proxy_contract_with_nonce E
         \<lparr>pf_address = PROXY_FACTORY_CONTRACT, pf_ethereum_client = (Node url, node_at E url)\<rparr>
         SAFE_CONTRACT a init (case salt of Some s \<Rightarrow> s | None \<Rightarrow> get_nonce E) None None None
         (t @ [(Node url, net_version), (Node url, eth_getBalance a), (Node url, net_version),
               (Node url, eth_getCode SAFE_CONTRACT), (Node url, eth_getCode PROXY_FACTORY_CONTRACT)])
       = (Inr (tx, c), t')"
    by auto
  from builder_Inr [OF this] show ?thesis
    by (cases salt) (auto simp: get_nonce_def)
qed

subsection \<open>The builder's overrides\<close>

text \<open>
  C1. The builder writes a nonce override into the parameters and then replaces the nonce
  of the built transaction by the transaction count. With a reported count of 3 the
  returned nonce is 3 when no override is given, and is still 3 when the override is 7.
\<close>

theorem builder_nonce_override_discarded:
  "(\<exists>tx c u. build_tx_deploy_proxy_contract_with_nonce env0 pf0 SAFE_CONTRACT ''0xSender'' [1, 2]
       42 None None None [] = (Inr (tx, c), u) \<and> tx_nonce tx = Some 3)
   \<and> (\<exists>tx c u. build_tx_deploy_proxy_contract_with_nonce env0 pf0 SAFE_CONTRACT ''0xSender'' [1, 2]
       42 None None (Some 7) [] = (Inr (tx, c), u) \<and> tx_nonce tx = Some 3)"
  by (simp add: run_defs double_defs)

text \<open>
  C2. The builder adds 50000 to the gas limit of the built transaction whether the limit
  was estimated or given. With an estimate of 250000 the returned limit is 300000 when no
  override is given; with an override of 100000 it is 150000.
\<close>

theorem builder_gas_override_buffered:
  "(\<exists>tx c u. build_tx_deploy_proxy_contract_with_nonce env0 pf0 SAFE_CONTRACT ''0xSender'' [1, 2]
       42 None None None [] = (Inr (tx, c), u) \<and> tx_gas tx = Some 300000)
   \<and> (\<exists>tx c u. build_tx_deploy_proxy_contract_with_nonce env0 pf0 SAFE_CONTRACT ''0xSender'' [1, 2]
       42 (Some 100000) None None [] = (Inr (tx, c), u) \<and> tx_gas tx = Some 150000)"
  by (simp add: run_defs double_defs)

subsection \<open>The planner's rejections\<close>

text \<open>
  C3, as the code has it. A request whose threshold exceeds the number of entries of the
  owner list is rejected with \<open>InvalidThreshold\<close>, and the trace is the one the run
  started with: no client was asked anything.
\<close>

theorem planner_rejects_threshold_above_owner_count:
  assumes "int (length owners) < threshold"
  shows "get_deploy_safe_tx E url sender owners threshold salt t = (Inl InvalidThreshold, t)"
  using assms by (rule planner_threshold)

theorem planner_rejects_threshold_above_owner_count_witness:
  "int (length [''0xA'', ''0xB'']) < 3
   \<and> get_deploy_safe_tx env0 ''http://node'' ''0xSender'' [''0xA'', ''0xB''] 3 None []
       = (Inl InvalidThreshold, [])"
  using planner_rejects_threshold_above_owner_count
    [of "[''0xA'', ''0xB'']" 3 env0 "''http://node''" "''0xSender''" None "[]"]
  by simp

text \<open>
  A threshold below 1 is not tested: with three distinct owners and a threshold of 0 the
  run is not rejected with \<open>InvalidThreshold\<close>, and it queries the node.
\<close>

theorem planner_threshold_counterexample:
  "\<not> (1 \<le> (0::int) \<and> (0::int) \<le> int (card (set [''0xA'', ''0xB'', ''0xC''])))
   \<and> fst (get_deploy_safe_tx env0 ''http://node'' ''0xSender'' [''0xA'', ''0xB'', ''0xC''] 0
            (Some 42) []) \<noteq> Inl InvalidThreshold
   \<and> snd (get_deploy_safe_tx env0 ''http://node'' ''0xSender'' [''0xA'', ''0xB'', ''0xC''] 0
            (Some 42) []) \<noteq> []"
  by (simp add: run_defs double_defs const_defs)

text \<open>
  C4. A request that passes the threshold test, for which the client is constructed (its
  network query is answered) and whose sender has a reported balance of zero, fails with
  \<open>InsufficientFunds\<close>. The trace holds the constructor's query and the balance query and
  nothing else, so no transaction is simulated, estimated or built.
\<close>

theorem planner_zero_balance:
  assumes "\<not> int (length owners) < threshold"
    and "network_name (node_at E url) = Inr n"
    and "checksum_address E sender = Inr a"
    and "balance_of (node_at E url) a = Inr 0"
  shows "get_deploy_safe_tx E url sender owners threshold salt t =
           (Inl InsufficientFunds, t @ [(Node url, net_version), (Node url, eth_getBalance a)])"
  using assms by (rule planner_no_funds)

theorem planner_zero_balance_witness:
  "get_deploy_safe_tx env_broke ''http://node'' ''0xSender'' [''0xA'', ''0xB'', ''0xC''] 2 (Some 42) []
     = (Inl InsufficientFunds,
        [(Node ''http://node'', net_version), (Node ''http://node'', eth_getBalance ''0xSender'')])"
  using planner_zero_balance
    [of "[''0xA'', ''0xB'', ''0xC'']" 2 env_broke "''http://node''" "''MAINNET''" "''0xSender''"
        "''0xSender''" "Some 42" "[]"]
  by (simp add: double_defs)

text \<open>
  C5. A sender with the largest balance there is, on a network without the two contracts:
  the request passes the threshold and funds tests, and the run ends in the rounding made
  for the log line, with \<open>InvalidOperation\<close> and before any code query, not with
  \<open>UnsupportedNetwork\<close>.
\<close>

theorem planner_large_balance_raises:
  "code_at (node_at env_rich ''http://node'') SAFE_CONTRACT = Inr []
   \<and> code_at (node_at env_rich ''http://node'') PROXY_FACTORY_CONTRACT = Inr []
   \<and> get_deploy_safe_tx env_rich ''http://node'' ''0xSender'' [''0xA'', ''0xB'', ''0xC''] 2 (Some 42) []
     = (Inl InvalidOperation,
        [(Node ''http://node'', net_version), (Node ''http://node'', eth_getBalance ''0xSender'')])"
  by (simp add: run_defs double_defs)

text \<open>
  Below the bound of the rounding the network error is the one reported: with both
  contracts missing, and with the factory alone missing.
\<close>

lemma planner_no_code_example:
  "fst (get_deploy_safe_tx env_nocode ''http://node'' ''0xSender'' [''0xA'', ''0xB'', ''0xC''] 2
          (Some 42) []) = Inl UnsupportedNetwork
   \<and> fst (get_deploy_safe_tx env_nofactory ''http://node'' ''0xSender'' [''0xA'', ''0xB'', ''0xC''] 2
          (Some 42) []) = Inl UnsupportedNetwork"
proof -
  have a: "fst (get_deploy_safe_tx env_nocode ''http://node'' ''0xSender''
             [''0xA'', ''0xB'', ''0xC''] 2 (Some 42) []) = Inl UnsupportedNetwork"
    by (rule planner_no_code [where a = "''0xSender''" and b = 1000000000000000000
          and n = "''MAINNET''" and safe_code = "[]"])
       (simp_all add: double_defs)
  have b: "fst (get_deploy_safe_tx env_nofactory ''http://node'' ''0xSender''
             [''0xA'', ''0xB'', ''0xC''] 2 (Some 42) []) = Inl UnsupportedNetwork"
    by (rule planner_no_code [where a = "''0xSender''" and b = 1000000000000000000
          and n = "''MAINNET''" and safe_code = "[96, 128]"])
       (simp_all add: double_defs const_defs)
  from a b show ?thesis by simp
qed

text \<open>
  C9. The tests run in the order threshold, balance, code. A threshold above the number of
  owner entries gives \<open>InvalidThreshold\<close> whatever the node would report, and nothing is
  asked of it. With the threshold test passed and the client constructed (its network
  query answered), a reported balance of zero gives \<open>InsufficientFunds\<close> right after the
  balance query, before any code query and whatever code the node would report.
\<close>

theorem planner_check_order:
  "(int (length owners) < threshold \<longrightarrow>
      get_deploy_safe_tx E url sender owners threshold salt t = (Inl InvalidThreshold, t))
   \<and> (\<not> int (length owners) < threshold \<and> network_name (node_at E url) = Inr n
        \<and> checksum_address E sender = Inr a \<and> balance_of (node_at E url) a = Inr 0 \<longrightarrow>
      get_deploy_safe_tx E url sender owners threshold salt t =
        (Inl InsufficientFunds, t @ [(Node url, net_version), (Node url, eth_getBalance a)]))"
  using planner_threshold planner_no_funds by blast

text \<open>
  On a network with no funds and no contracts: a threshold of 3 over two owners fails on
  the threshold, a threshold of 2 fails on the funds.
\<close>

theorem planner_check_order_witness:
  "get_deploy_safe_tx env_bare ''http://node'' ''0xSender'' [''0xA'', ''0xB''] 3 (Some 42) []
     = (Inl InvalidThreshold, [])
   \<and> balance_of (node_at env_bare ''http://node'') ''0xSender'' = Inr 0
   \<and> code_at (node_at env_bare ''http://node'') SAFE_CONTRACT = Inr []
   \<and> code_at (node_at env_bare ''http://node'') PROXY_FACTORY_CONTRACT = Inr []
   \<and> get_deploy_safe_tx env_bare ''http://node'' ''0xSender'' [''0xA'', ''0xB''] 2 (Some 42) []
     = (Inl InsufficientFunds,
        [(Node ''http://node'', net_version), (Node ''http://node'', eth_getBalance ''0xSender'')])"
  using planner_check_order
    [of "[''0xA'', ''0xB'']" 3 env_bare "''http://node''" "''0xSender''" "Some 42" "[]"
        "''MAINNET''" "''0xSender''"]
    planner_check_order
    [of "[''0xA'', ''0xB'']" 2 env_bare "''http://node''" "''0xSender''" "Some 42" "[]"
        "''MAINNET''" "''0xSender''"]
  by (simp add: double_defs)

subsection \<open>What a returned plan holds\<close>

text \<open>
  C6. Two builder runs with the same factory, master copy, initializer and salt, against a
  node whose simulation of the factory call answers with one fixed address for any sender,
  return that address both times, whatever the sender, the overrides and the earlier
  trace.
\<close>

theorem builder_predicted_address:
  assumes "encodeABI E (createProxyWithNonce master_copy initializer salt_nonce) = Inr d"
    and "\<forall>sender. call_result (snd (pf_ethereum_client pf))
           (no_params\<lparr>tx_from := Some sender, tx_to := Some (pf_address pf), tx_data := Some d\<rparr>)
           = Inr predicted"
    and "build_tx_deploy_proxy_contract_with_nonce E pf master_copy a1 initializer salt_nonce
           g1 p1 n1 t1 = (Inr (tx1, c1), u1)"
    and "build_tx_deploy_proxy_contract_with_nonce E pf master_copy a2 initializer salt_nonce
           g2 p2 n2 t2 = (Inr (tx2, c2), u2)"
  shows "c1 = c2 \<and> c1 = predicted"
proof -
  from builder_Inr [OF assms(3)] assms(1,2) have "c1 = predicted" by auto
  moreover from builder_Inr [OF assms(4)] assms(1,2) have "c2 = predicted" by auto
  ultimately show ?thesis by simp
qed

theorem builder_predicted_address_witness:
  "\<exists>tx1 tx2 c1 c2 u1 u2.
     build_tx_deploy_proxy_contract_with_nonce env0 pf0 SAFE_CONTRACT ''0xSender'' [1, 2] 42
       None None None [] = (Inr (tx1, c1), u1)
   \<and> build_tx_deploy_proxy_contract_with_nonce env0 pf0 SAFE_CONTRACT ''0xOther'' [1, 2] 42
       (Some 90000) (Some 5) (Some 7) [] = (Inr (tx2, c2), u2)
   \<and> c1 = c2 \<and> c1 = ''0xPredicted''"
proof -
  obtain tx1 c1 u1 where r1: "build_tx_deploy_proxy_contract_with_nonce env0 pf0 SAFE_CONTRACT
      ''0xSender'' [1, 2] 42 None None None [] = (Inr (tx1, c1), u1)"
    by (simp add: run_defs double_defs)
  obtain tx2 c2 u2 where r2: "build_tx_deploy_proxy_contract_with_nonce env0 pf0 SAFE_CONTRACT
      ''0xOther'' [1, 2] 42 (Some 90000) (Some 5) (Some 7) [] = (Inr (tx2, c2), u2)"
    by (simp add: run_defs double_defs)
  have e: "encodeABI env0 (createProxyWithNonce SAFE_CONTRACT [1, 2] 42) = Inr [2, 42, 1, 2]"
    by (simp add: double_defs)
  have f: "\<forall>sender. call_result (snd (pf_ethereum_client pf0))
      (no_params\<lparr>tx_from := Some sender, tx_to := Some (pf_address pf0),
         tx_data := Some [2, 42, 1, 2]\<rparr>) = Inr ''0xPredicted''"
    by (simp add: double_defs)
  from builder_predicted_address [OF e f r1 r2] r1 r2 show ?thesis by blast
qed

text \<open>
  C7. Two planner runs with the same owners, threshold and salt return the same
  \<open>data\<close>: it is the encoded \<open>createProxyWithNonce\<close> of the Safe address, the encoded
  \<open>setup_call\<close> and the salt, where the \<open>setup_call\<close> has the owners, the threshold, the
  default fallback handler, no delegate call and zero payment fields. The node, the URL
  and the sender may differ between the runs; the encoder is the same.
\<close>

theorem planner_data_payload:
  assumes "encodeABI E1 = encodeABI E2"
    and "get_deploy_safe_tx E1 url1 sender1 owners threshold (Some s) t1 = (Inr (tx1, c1), u1)"
    and "get_deploy_safe_tx E2 url2 sender2 owners threshold (Some s) t2 = (Inr (tx2, c2), u2)"
  shows "tx_data tx1 = tx_data tx2
    \<and> (\<exists>init d. encodeABI E1 (setup_call owners threshold NULL_ADDRESS [] DEFAULT_CALLBACK_HANDLER
                   NULL_ADDRESS 0 NULL_ADDRESS) = Inr init
          \<and> encodeABI E1 (createProxyWithNonce SAFE_CONTRACT init s) = Inr d
          \<and> tx_data tx1 = Some d)"
proof -
  from planner_Inr [OF assms(2)] obtain a1 init1 where
    i1: "encodeABI E1 (setup_call owners threshold NULL_ADDRESS [] DEFAULT_CALLBACK_HANDLER
           NULL_ADDRESS 0 NULL_ADDRESS) = Inr init1"
    and b1: "build_tx_deploy_proxy_contract_with_nonce E1
         \<lparr>pf_address = PROXY_FACTORY_CONTRACT, pf_ethereum_client = (Node url1, node_at E1 url1)\<rparr>
         SAFE_CONTRACT a1 init1 s None None None
         (t1 @ [(Node url1, net_version), (Node url1, eth_getBalance a1), (Node url1, net_version),
               (Node url1, eth_getCode SAFE_CONTRACT), (Node url1, eth_getCode PROXY_FACTORY_CONTRACT)])
       = (Inr (tx1, c1), u1)"
    by auto
  from planner_Inr [OF assms(3)] obtain a2 init2 where
    i2: "encodeABI E2 (setup_call owners threshold NULL_ADDRESS [] DEFAULT_CALLBACK_HANDLER
           NULL_ADDRESS 0 NULL_ADDRESS) = Inr init2"
    and b2: "build_tx_deploy_proxy_contract_with_nonce E2
         \<lparr>pf_address = PROXY_FACTORY_CONTRACT, pf_ethereum_client = (Node url2, node_at E2 url2)\<rparr>
         SAFE_CONTRACT a2 init2 s None None None
         (t2 @ [(Node url2, net_version), (Node url2, eth_getBalance a2), (Node url2, net_version),
               (Node url2, eth_getCode SAFE_CONTRACT), (Node url2, eth_getCode PROXY_FACTORY_CONTRACT)])
       = (Inr (tx2, c2), u2)"
    by auto
  from i1 i2 assms(1) have same: "init2 = init1" by simp
  from builder_Inr [OF b1] obtain d1 where
    d1: "encodeABI E1 (createProxyWithNonce SAFE_CONTRACT init1 s) = Inr d1"
    and x1: "tx_data tx1 = Some d1"
    by auto
  from builder_Inr [OF b2] obtain d2 where
    d2: "encodeABI E2 (createProxyWithNonce SAFE_CONTRACT init2 s) = Inr d2"
    and x2: "tx_data tx2 = Some d2"
    by auto
  from d1 d2 same assms(1) have "d2 = d1" by simp
  with x1 x2 i1 d1 show ?thesis by auto
qed

theorem planner_data_payload_witness:
  "\<exists>tx1 tx2 c1 c2 u1 u2.
     get_deploy_safe_tx env0 ''http://a'' ''0xSender'' [''0xA'', ''0xB'', ''0xC''] 2 (Some 42) []
       = (Inr (tx1, c1), u1)
   \<and> get_deploy_safe_tx env_two ''http://b'' ''0xOther'' [''0xA'', ''0xB'', ''0xC''] 2 (Some 42) []
       = (Inr (tx2, c2), u2)
   \<and> tx_data tx1 = tx_data tx2 \<and> tx_data tx1 = Some [2, 42, 1, 3, 2]"
proof -
  obtain tx1 c1 u1 where r1: "get_deploy_safe_tx env0 ''http://a'' ''0xSender''
      [''0xA'', ''0xB'', ''0xC''] 2 (Some 42) [] = (Inr (tx1, c1), u1)"
    by (simp add: run_defs double_defs)
  obtain tx2 c2 u2 where r2: "get_deploy_safe_tx env_two ''http://b'' ''0xOther''
      [''0xA'', ''0xB'', ''0xC''] 2 (Some 42) [] = (Inr (tx2, c2), u2)"
    by (simp add: run_defs double_defs)
  have e: "encodeABI env0 = encodeABI env_two"
    by (simp add: double_defs)
  from planner_data_payload [OF e r1 r2] have
    "tx_data tx1 = tx_data tx2 \<and> tx_data tx1 = Some [2, 42, 1, 3, 2]"
    by (auto simp: double_defs)
  with r1 r2 show ?thesis by blast
qed

text \<open>
  C10. The nonce of a returned plan is the transaction count reported by the
  auto-configured node for the checksummed sender: two runs that differ in the URL alone
  return the same nonce, the count query is the last of the trace and went to the
  auto-configured client, and no count query went to the client of the URL.
\<close>

theorem planner_nonce_from_auto_client:
  assumes "get_deploy_safe_tx E url1 sender owners threshold salt t1 = (Inr (tx1, c1), u1)"
    and "get_deploy_safe_tx E url2 sender owners threshold salt t2 = (Inr (tx2, c2), u2)"
  shows "tx_nonce tx1 = tx_nonce tx2
    \<and> (\<exists>a n. checksum_address E sender = Inr a
          \<and> transaction_count (auto_node E) a = Inr n
          \<and> tx_nonce tx1 = Some n
          \<and> last u1 = (Auto, eth_getTransactionCount a)
          \<and> (\<forall>x. (Node url1, eth_getTransactionCount x) \<notin> set (drop (length t1) u1)))"
proof -
  from planner_Inr [OF assms(1)] obtain a1 init1 where
    k1: "checksum_address E sender = Inr a1"
    and b1: "build_tx_deploy_proxy_contract_with_nonce E
         \<lparr>pf_address = PROXY_FACTORY_CONTRACT, pf_ethereum_client = (Node url1, node_at E url1)\<rparr>
         SAFE_CONTRACT a1 init1 (case salt of Some s \<Rightarrow> s | None \<Rightarrow> get_nonce E) None None None
         (t1 @ [(Node url1, net_version), (Node url1, eth_getBalance a1), (Node url1, net_version),
               (Node url1, eth_getCode SAFE_CONTRACT), (Node url1, eth_getCode PROXY_FACTORY_CONTRACT)])
       = (Inr (tx1, c1), u1)"
    by auto
  from planner_Inr [OF assms(2)] obtain a2 init2 where
    k2: "checksum_address E sender = Inr a2"
    and b2: "build_tx_deploy_proxy_contract_with_nonce E
         \<lparr>pf_address = PROXY_FACTORY_CONTRACT, pf_ethereum_client = (Node url2, node_at E url2)\<rparr>
         SAFE_CONTRACT a2 init2 (case salt of Some s \<Rightarrow> s | None \<Rightarrow> get_nonce E) None None None
         (t2 @ [(Node url2, net_version), (Node url2, eth_getBalance a2), (Node url2, net_version),
               (Node url2, eth_getCode SAFE_CONTRACT), (Node url2, eth_getCode PROXY_FACTORY_CONTRACT)])
       = (Inr (tx2, c2), u2)"
    by auto
  from k1 k2 have same: "a2 = a1" by simp
  from builder_Inr [OF b1] obtain n1 where
    n1: "transaction_count (auto_node E) a1 = Inr n1" and x1: "tx_nonce tx1 = Some n1"
    and l1: "last u1 = (Auto, eth_getTransactionCount a1)"
    and q1: "\<forall>x. (Node url1, eth_getTransactionCount x) \<notin> set (drop (length t1) u1)"
    by auto
  from builder_Inr [OF b2] obtain n2 where
    n2: "transaction_count (auto_node E) a2 = Inr n2" and x2: "tx_nonce tx2 = Some n2"
    by auto
  from n1 n2 same have "n2 = n1" by simp
  with k1 n1 x1 x2 l1 q1 show ?thesis by auto
qed

text \<open>
  The nodes behind the two URLs report counts of 11 and 99; both plans carry the 3 of the
  auto-configured node.
\<close>

theorem planner_nonce_from_auto_client_witness:
  "\<exists>tx1 tx2 c1 c2 u1 u2.
     get_deploy_safe_tx env_two ''http://a'' ''0xSender'' [''0xA'', ''0xB'', ''0xC''] 2 (Some 42) []
       = (Inr (tx1, c1), u1)
   \<and> get_deploy_safe_tx env_two ''http://b'' ''0xSender'' [''0xA'', ''0xB'', ''0xC''] 2 (Some 42) []
       = (Inr (tx2, c2), u2)
   \<and> transaction_count (node_at env_two ''http://a'') ''0xSender'' = Inr 11
   \<and> transaction_count (node_at env_two ''http://b'') ''0xSender'' = Inr 99
   \<and> tx_nonce tx1 = Some 3 \<and> tx_nonce tx2 = Some 3"
proof -
  obtain tx1 c1 u1 where r1: "get_deploy_safe_tx env_two ''http://a'' ''0xSender''
      [''0xA'', ''0xB'', ''0xC''] 2 (Some 42) [] = (Inr (tx1, c1), u1)"
    by (simp add: run_defs double_defs)
  obtain tx2 c2 u2 where r2: "get_deploy_safe_tx env_two ''http://b'' ''0xSender''
      [''0xA'', ''0xB'', ''0xC''] 2 (Some 42) [] = (Inr (tx2, c2), u2)"
    by (simp add: run_defs double_defs)
  from planner_nonce_from_auto_client [OF r1 r2] have
    "tx_nonce tx1 = Some 3 \<and> tx_nonce tx2 = Some 3"
    by (auto simp: double_defs)
  moreover have "transaction_count (node_at env_two ''http://a'') ''0xSender'' = Inr 11"
    "transaction_count (node_at env_two ''http://b'') ''0xSender'' = Inr 99"
    by (simp_all add: double_defs)
  ultimately show ?thesis using r1 r2 by blast
qed

end
